theory Spec2Isabelle
  imports Main "HOL-Library.Word"
begin

unbundle bit_operations_syntax

section \<open>Data model\<close>

text \<open>
  A Go \<open>string\<close> is a sequence of bytes; an Isabelle \<open>char\<close> is a byte, so a Go string is
  a \<open>string\<close>. A \<open>rune\<close> is a (32-bit, signed) code point; all runes computed below lie
  between 0 and 0x1FFFFF, so they are modelled as \<open>int\<close>.
\<close>

type_synonym rune = int
type_synonym uint16 = "16 word"
type_synonym uint32 = "32 word"

text \<open>
  The errors of the package: the \<open>fmt.Errorf\<close> value of \<open>ToRaw\<close>, the \<open>syscall.EINVAL\<close> of
  \<open>syscall.UTF16FromString\<close>, and the run-time panic of an index expression out of range
  (which is no error value in Go: it unwinds through every caller).
\<close>

datatype error = ErrorString string | EINVAL | PanicIndexOutOfRange

definition byte :: "char \<Rightarrow> int" where
  "byte c = of_char c"

section \<open>The Go library functions the package calls\<close>

subsection \<open>\<open>[]rune(s)\<close>: UTF-8 decoding (runtime/utf8.go)\<close>

definition runeError :: rune where "runeError = 0xFFFD"
definition runeSelf :: int where "runeSelf = 0x80"
definition maxRune :: rune where "maxRune = 0x10FFFF"
definition surrogateMin :: rune where "surrogateMin = 0xD800"
definition surrogateMax :: rune where "surrogateMax = 0xDFFF"

definition tx :: int where "tx = 0x80"
definition t2 :: int where "t2 = 0xC0"
definition t3 :: int where "t3 = 0xE0"
definition t4 :: int where "t4 = 0xF0"
definition t5 :: int where "t5 = 0xF8"

definition maskx :: int where "maskx = 0x3F"
definition mask2 :: int where "mask2 = 0x1F"
definition mask3 :: int where "mask3 = 0x0F"
definition mask4 :: int where "mask4 = 0x07"

definition rune1Max :: rune where "rune1Max = 2 ^ 7 - 1"
definition rune2Max :: rune where "rune2Max = 2 ^ 11 - 1"
definition rune3Max :: rune where "rune3Max = 2 ^ 16 - 1"

definition locb :: int where "locb = 0x80"
definition hicb :: int where "hicb = 0xBF"

lemmas utf8_consts =
  runeError_def runeSelf_def maxRune_def surrogateMin_def surrogateMax_def
  tx_def t2_def t3_def t4_def t5_def maskx_def mask2_def mask3_def mask4_def
  rune1Max_def rune2Max_def rune3Max_def locb_def hicb_def

definition iscont :: "char \<Rightarrow> bool" where
  "iscont c = (locb \<le> byte c \<and> byte c \<le> hicb)"

text \<open>
  \<open>decoderune s\<close> is \<open>decoderune(s0, k)\<close> of the Go runtime, where \<open>s\<close> is \<open>s0[k:]\<close>: it
  returns the rune and the number of bytes it takes (the runtime returns the new
  position \<open>k + width\<close>).
\<close>

definition decoderune :: "string \<Rightarrow> rune \<times> nat" where
  "decoderune s =
    (if s = [] then (runeError, 1)
     else if t2 \<le> byte (s ! 0) \<and> byte (s ! 0) < t3 then
       (if length s > 1 \<and> iscont (s ! 1) then
          (let r = push_bit 6 (byte (s ! 0) AND mask2) OR (byte (s ! 1) AND maskx)
           in if rune1Max < r then (r, 2) else (runeError, 1))
        else (runeError, 1))
     else if t3 \<le> byte (s ! 0) \<and> byte (s ! 0) < t4 then
       (if length s > 2 \<and> iscont (s ! 1) \<and> iscont (s ! 2) then
          (let r = push_bit 12 (byte (s ! 0) AND mask3) OR push_bit 6 (byte (s ! 1) AND maskx)
                   OR (byte (s ! 2) AND maskx)
           in if rune2Max < r \<and> \<not> (surrogateMin \<le> r \<and> r \<le> surrogateMax) then (r, 3)
              else (runeError, 1))
        else (runeError, 1))
     else if t4 \<le> byte (s ! 0) \<and> byte (s ! 0) < t5 then
       (if length s > 3 \<and> iscont (s ! 1) \<and> iscont (s ! 2) \<and> iscont (s ! 3) then
          (let r = push_bit 18 (byte (s ! 0) AND mask4) OR push_bit 12 (byte (s ! 1) AND maskx)
                   OR push_bit 6 (byte (s ! 2) AND maskx) OR (byte (s ! 3) AND maskx)
           in if rune3Max < r \<and> r \<le> maxRune then (r, 4) else (runeError, 1))
        else (runeError, 1))
     else (runeError, 1))"

text \<open>
  \<open>stringtoslicerune\<close> is the conversion \<open>[]rune(s)\<close>: a \<open>range\<close> loop over the string,
  which takes a byte below \<open>RuneSelf\<close> as it is and calls \<open>decoderune\<close> otherwise.
\<close>

function stringtoslicerune :: "string \<Rightarrow> rune list" where
  "stringtoslicerune [] = []"
| "stringtoslicerune (c # cs) =
     (if byte c < runeSelf then byte c # stringtoslicerune cs
      else (case decoderune (c # cs) of (r, w) \<Rightarrow> r # stringtoslicerune (drop w (c # cs))))"
  by pat_completeness auto
termination
proof (relation "measure length")
  fix c :: char and cs :: string and r :: rune and w :: nat
  assume "(r, w) = decoderune (c # cs)"
  then have "w = snd (decoderune (c # cs))" by (metis snd_conv)
  moreover have "1 \<le> snd (decoderune (c # cs))" by (simp add: decoderune_def Let_def)
  ultimately have "1 \<le> w" by simp
  then show "(drop w (c # cs), c # cs) \<in> measure length" by simp
qed simp_all

subsection \<open>\<open>utf16.Encode\<close> (unicode/utf16)\<close>

definition surr1 :: rune where "surr1 = 0xd800"
definition surr2 :: rune where "surr2 = 0xdc00"
definition surr3 :: rune where "surr3 = 0xe000"
definition surrSelf :: rune where "surrSelf = 0x10000"
definition replacementChar :: rune where "replacementChar = 0xFFFD"

lemmas utf16_consts =
  surr1_def surr2_def surr3_def surrSelf_def replacementChar_def maxRune_def

definition EncodeRune :: "rune \<Rightarrow> rune \<times> rune" where
  "EncodeRune r =
    (if r < surrSelf \<or> r > maxRune then (replacementChar, replacementChar)
     else (let r' = r - surrSelf
           in (surr1 + (drop_bit 10 r' AND 0x3ff), surr2 + (r' AND 0x3ff))))"

fun Encode :: "rune list \<Rightarrow> uint16 list" where
  "Encode [] = []"
| "Encode (v # s) =
     (if (0 \<le> v \<and> v < surr1) \<or> (surr3 \<le> v \<and> v < surrSelf) then
        word_of_int v # Encode s
      else if surrSelf \<le> v \<and> v \<le> maxRune then
        (case EncodeRune v of (r1, r2) \<Rightarrow> word_of_int r1 # word_of_int r2 # Encode s)
      else word_of_int replacementChar # Encode s)"

subsection \<open>\<open>syscall.UTF16FromString\<close> and \<open>syscall.UTF16PtrFromString\<close>\<close>

text \<open>
  \<open>UTF16FromString\<close> refuses a string with a NUL byte and otherwise returns
  \<open>utf16.Encode([]rune(s + "\x00"))\<close>: the UTF-16 units of \<open>s\<close> and a terminating NUL.
  (Later releases of Go encode with a function of their own, which differs from this one
  only on byte sequences that encode a surrogate.)
\<close>

definition UTF16FromString :: "string \<Rightarrow> error + uint16 list" where
  "UTF16FromString s =
    (if CHR 0x00 \<in> set s then Inl EINVAL
     else Inr (Encode (stringtoslicerune (s @ [CHR 0x00]))))"

text \<open>
  A \<open>*uint16\<close> obtained as \<open>&a[0]\<close> is modelled by the array \<open>a\<close> it points into, read from
  its first element; the index expression panics on an empty slice.
\<close>

definition addr0 :: "uint16 list \<Rightarrow> error + uint16 list" where
  "addr0 a = (if a = [] then Inl PanicIndexOutOfRange else Inr a)"

definition UTF16PtrFromString :: "string \<Rightarrow> error + uint16 list" where
  "UTF16PtrFromString s =
    (case UTF16FromString s of Inl err \<Rightarrow> Inl err | Inr a \<Rightarrow> addr0 a)"

section \<open>The filter encoder\<close>

record Filter =
  Name :: string
  Pattern :: string

type_synonym FileFilter = "Filter list"

text \<open>
  \<open>strings.ContainsRune(s, r)\<close> for a rune below \<open>RuneSelf\<close> is a search for the byte; the
  package calls it with the space character only.
\<close>

definition ContainsRune :: "string \<Rightarrow> char \<Rightarrow> bool" where
  "ContainsRune s r = (r \<in> set s)"

text \<open>
  The \<open>range\<close> loop of \<open>ToRaw\<close> over the filters, with the contents of the
  \<open>strings.Builder\<close> as its state. It returns the error of the first pattern with a space.
\<close>

fun ToRaw_loop :: "string \<Rightarrow> FileFilter \<Rightarrow> error + string" where
  "ToRaw_loop sb [] = Inr sb"
| "ToRaw_loop sb (f # ff) =
     (let sb1 = sb @ Name f;
          sb2 = sb1 @ ''|''
      in if ContainsRune (Pattern f) (CHR '' '') then
           Inl (ErrorString ''pattern contains a space'')
         else
           (let sb3 = sb2 @ Pattern f;
                sb4 = sb3 @ ''|''
            in ToRaw_loop sb4 ff))"

text \<open>The second loop of \<open>ToRaw\<close>: every unit equal to \<open>uint16('|')\<close> is set to 0.\<close>

fun ToRaw_subst :: "uint16 list \<Rightarrow> uint16 list" where
  "ToRaw_subst [] = []"
| "ToRaw_subst (u # us) = (if u = 0x7C then 0 else u) # ToRaw_subst us"

definition ToRaw :: "FileFilter \<Rightarrow> error + uint16 list" where
  "ToRaw ff =
    (case ToRaw_loop [] ff of
       Inl err \<Rightarrow> Inl err
     | Inr sb \<Rightarrow>
         (case UTF16FromString (sb @ ''|'') of
            Inl err \<Rightarrow> Inl err
          | Inr ptr \<Rightarrow> addr0 (ToRaw_subst ptr)))"

section \<open>Decoding the result\<close>

subsection \<open>\<open>utf16.Decode\<close> (unicode/utf16)\<close>

definition DecodeRune :: "rune \<Rightarrow> rune \<Rightarrow> rune" where
  "DecodeRune r1 r2 =
    (if surr1 \<le> r1 \<and> r1 < surr2 \<and> surr2 \<le> r2 \<and> r2 < surr3 then
       (push_bit 10 (r1 - surr1) OR (r2 - surr2)) + surrSelf
     else replacementChar)"

fun Decode :: "uint16 list \<Rightarrow> rune list" where
  "Decode [] = []"
| "Decode (r # s) =
     (if uint r < surr1 \<or> surr3 \<le> uint r then uint r # Decode s
      else if surr1 \<le> uint r \<and> uint r < surr2 \<and> s \<noteq> [] \<and>
              surr2 \<le> uint (hd s) \<and> uint (hd s) < surr3 then
        DecodeRune (uint r) (uint (hd s)) # Decode (tl s)
      else replacementChar # Decode s)"

subsection \<open>\<open>string(runes)\<close>: UTF-8 encoding (runtime/utf8.go)\<close>

definition encoderune3 :: "rune \<Rightarrow> string" where
  "encoderune3 r =
    [char_of (t3 OR drop_bit 12 r),
     char_of (tx OR (drop_bit 6 r AND maskx)),
     char_of (tx OR (r AND maskx))]"

text \<open>\<open>i\<close> is \<open>uint32(r)\<close>; the conversion \<open>byte(x)\<close> keeps the low 8 bits, as \<open>char_of\<close> does.\<close>

definition encoderune :: "rune \<Rightarrow> string" where
  "encoderune r =
    (let i = take_bit 32 r
     in if i \<le> rune1Max then [char_of r]
        else if i \<le> rune2Max then
          [char_of (t2 OR drop_bit 6 r), char_of (tx OR (r AND maskx))]
        else if i > maxRune \<or> (surrogateMin \<le> i \<and> i \<le> surrogateMax) then
          encoderune3 runeError
        else if i \<le> rune3Max then encoderune3 r
        else
          [char_of (t4 OR drop_bit 18 r),
           char_of (tx OR (drop_bit 12 r AND maskx)),
           char_of (tx OR (drop_bit 6 r AND maskx)),
           char_of (tx OR (r AND maskx))])"

fun slicerunetostring :: "rune list \<Rightarrow> string" where
  "slicerunetostring [] = []"
| "slicerunetostring (r # a) = encoderune r @ slicerunetostring a"

subsection \<open>The decoder of \<open>syscall.UTF16ToString\<close>, release by release\<close>

text \<open>
  What \<open>syscall.UTF16ToString\<close> does to the slice it has cut depends on the release of Go
  that builds the package. Up to Go 1.20 it returns \<open>string(utf16.Decode(s))\<close>, in which an
  unpaired surrogate becomes U+FFFD (the bytes EF BF BD).
\<close>

definition string_utf16_Decode :: "uint16 list \<Rightarrow> string" where
  "string_utf16_Decode s = slicerunetostring (Decode s)"

text \<open>
  From Go 1.21 it returns \<open>decodeWTF16(s, buf)\<close>, which keeps an unpaired surrogate in the
  three bytes of its own (ED A0 80 for 0xD800). \<open>utf8.AppendRune\<close>, which it calls, has
  the body of \<open>encoderune\<close>.
\<close>

fun decodeWTF16 :: "uint16 list \<Rightarrow> string" where
  "decodeWTF16 [] = []"
| "decodeWTF16 (r # s) =
     (if uint r < surr1 \<or> surr3 \<le> uint r then encoderune (uint r) @ decodeWTF16 s
      else if surr1 \<le> uint r \<and> uint r < surr2 \<and> s \<noteq> [] \<and>
              surr2 \<le> uint (hd s) \<and> uint (hd s) < surr3 then
        encoderune (DecodeRune (uint r) (uint (hd s))) @ decodeWTF16 (tl s)
      else
        (let ar = (if uint r > maxRune then runeError else uint r)
         in encoderune3 ar @ decodeWTF16 s))"

subsection \<open>\<open>syscall.UTF16ToString\<close>\<close>

text \<open>
  In every release, \<open>UTF16ToString\<close> cuts the slice at its first zero unit (\<open>s = s[0:i]\<close>)
  and decodes what is left. The decoder is a parameter of the model, so that nothing
  below depends on the release: it is \<open>string_utf16_Decode\<close> up to Go 1.20 and
  \<open>decodeWTF16\<close> from Go 1.21.
\<close>

fun UTF16ToString_cut :: "uint16 list \<Rightarrow> uint16 list" where
  "UTF16ToString_cut [] = []"
| "UTF16ToString_cut (v # s) = (if v = 0 then [] else v # UTF16ToString_cut s)"

definition UTF16ToString :: "(uint16 list \<Rightarrow> string) \<Rightarrow> uint16 list \<Rightarrow> string" where
  "UTF16ToString decode s = decode (UTF16ToString_cut s)"

section \<open>The parameter structure\<close>

subsection \<open>Flags\<close>

definition AllowMultiSelect :: uint32 where "AllowMultiSelect = 0x00000200"
definition CreatePrompt :: uint32 where "CreatePrompt = 0x00002000"
definition DontAddToRecent :: uint32 where "DontAddToRecent = 0x02000000"
definition EnableHook :: uint32 where "EnableHook = 0x00000020"
definition EnableIncludeNotify :: uint32 where "EnableIncludeNotify = 0x00400000"
definition EnableSizing :: uint32 where "EnableSizing = 0x00800000"
definition EnableTemplate :: uint32 where "EnableTemplate = 0x00000040"
definition EnableTemplateHandle :: uint32 where "EnableTemplateHandle = 0x00000080"
definition Explorer :: uint32 where "Explorer = 0x00080000"
definition ExtensionDifferent :: uint32 where "ExtensionDifferent = 0x00000400"
definition FileMustExist :: uint32 where "FileMustExist = 0x00001000"
definition ForceShowHidden :: uint32 where "ForceShowHidden = 0x10000000"
definition HideReadOnly :: uint32 where "HideReadOnly = 0x00000004"
definition LongNames :: uint32 where "LongNames = 0x00200000"
definition NoChangeDir :: uint32 where "NoChangeDir = 0x00000008"
definition NoDereferenceLinks :: uint32 where "NoDereferenceLinks = 0x00100000"
definition NoLongNames :: uint32 where "NoLongNames = 0x00040000"
definition NoNetworkButton :: uint32 where "NoNetworkButton = 0x00020000"
definition NoReadOnlyReturn :: uint32 where "NoReadOnlyReturn = 0x00008000"
definition NoTestFileCreate :: uint32 where "NoTestFileCreate = 0x00010000"
definition NoValidate :: uint32 where "NoValidate = 0x00000100"
definition OverwritePrompt :: uint32 where "OverwritePrompt = 0x00000002"
definition PathMustExist :: uint32 where "PathMustExist = 0x00000800"
definition ReadOnly :: uint32 where "ReadOnly = 0x00000001"
definition ShareAware :: uint32 where "ShareAware = 0x00004000"
definition ShowHelp :: uint32 where "ShowHelp = 0x00000010"

lemmas flag_defs =
  AllowMultiSelect_def CreatePrompt_def DontAddToRecent_def EnableHook_def
  EnableIncludeNotify_def EnableSizing_def EnableTemplate_def EnableTemplateHandle_def
  Explorer_def ExtensionDifferent_def FileMustExist_def ForceShowHidden_def HideReadOnly_def
  LongNames_def NoChangeDir_def NoDereferenceLinks_def NoLongNames_def NoNetworkButton_def
  NoReadOnlyReturn_def NoTestFileCreate_def NoValidate_def OverwritePrompt_def
  PathMustExist_def ReadOnly_def ShareAware_def ShowHelp_def

subsection \<open>\<open>TagOFNA\<close>\<close>

text \<open>
  An \<open>unsafe.Pointer\<close> and a \<open>uintptr\<close> are addresses (0 is \<open>nil\<close>); a \<open>*uint16\<close> is \<open>None\<close>
  for \<open>nil\<close> and otherwise the array it points into, read from the element it points at.
\<close>

type_synonym pointer = nat
type_synonym uintptr = nat
type_synonym lpwstr = "uint16 list option"

record TagOFNA =
  LStructSize :: uint32
  HwndOwner :: pointer
  HInstance :: pointer
  LpstrFilter :: lpwstr
  LpstrCustomFilter :: lpwstr
  NMaxCustFilter :: uint32
  NFilterIndex :: uint32
  LpstrFile :: lpwstr
  NMaxFile :: uint32
  LpstrFileTitle :: lpwstr
  NMaxFileTitle :: uint32
  LpstrInitialDir :: lpwstr
  LpstrTitle :: lpwstr
  Flags :: uint32
  NFileOffset :: uint16
  NFileExtension :: uint16
  LpstrDefExt :: lpwstr
  LCustData :: uintptr
  LpfnHook :: uintptr
  LpTemplateName :: lpwstr
  PvReserved :: pointer
  DwReserved :: uint32
  FlagsEx :: uint32

subsection \<open>\<open>unsafe.Sizeof\<close>\<close>

text \<open>
  The Go compiler lays the fields of a struct out in their order, each at the next
  multiple of its alignment, and rounds the size up to the largest alignment. The size
  and the alignment of a pointer are the word size of the platform (4 or 8 bytes).
\<close>

datatype gotype = Uint16 | Uint32 | Uintptr | UnsafePointer | PtrUint16

fun sizeof_gotype :: "nat \<Rightarrow> gotype \<Rightarrow> nat" where
  "sizeof_gotype p Uint16 = 2"
| "sizeof_gotype p Uint32 = 4"
| "sizeof_gotype p Uintptr = p"
| "sizeof_gotype p UnsafePointer = p"
| "sizeof_gotype p PtrUint16 = p"

definition align_up :: "nat \<Rightarrow> nat \<Rightarrow> nat" where
  "align_up n a = ((n + a - 1) div a) * a"

fun layout :: "nat \<Rightarrow> nat \<Rightarrow> gotype list \<Rightarrow> nat" where
  "layout p off [] = off"
| "layout p off (t # ts) = layout p (align_up off (sizeof_gotype p t) + sizeof_gotype p t) ts"

definition Sizeof_struct :: "nat \<Rightarrow> gotype list \<Rightarrow> nat" where
  "Sizeof_struct p ts = align_up (layout p 0 ts) (fold max (map (sizeof_gotype p) ts) 1)"

definition TagOFNA_fields :: "gotype list" where
  "TagOFNA_fields =
    [Uint32, UnsafePointer, UnsafePointer, PtrUint16, PtrUint16, Uint32, Uint32, PtrUint16,
     Uint32, PtrUint16, Uint32, PtrUint16, PtrUint16, Uint32, Uint16, Uint16, PtrUint16,
     Uintptr, Uintptr, PtrUint16, UnsafePointer, Uint32, Uint32]"

definition Sizeof_TagOFNA :: "nat \<Rightarrow> nat" where
  "Sizeof_TagOFNA p = Sizeof_struct p TagOFNA_fields"

subsection \<open>\<open>NewTagOFNA\<close>\<close>

text \<open>
  The first argument is the word size of the platform, which \<open>unsafe.Sizeof\<close> depends on.
  A panic in a callee unwinds through the caller: the model passes it on like an error.
\<close>

definition NewTagOFNA ::
  "nat \<Rightarrow> pointer \<Rightarrow> string \<Rightarrow> FileFilter \<Rightarrow> string \<Rightarrow> uint32 \<Rightarrow> error + TagOFNA" where
  "NewTagOFNA p parentHWND title filter' initialDir flags =
    (let lStructSize = (of_nat (Sizeof_TagOFNA p) :: uint32)
     in case UTF16PtrFromString title of
          Inl err \<Rightarrow> Inl err
        | Inr lpstrTitle \<Rightarrow>
            (case ToRaw filter' of
               Inl err \<Rightarrow> Inl err
             | Inr lpstrFilter \<Rightarrow>
                 (case UTF16PtrFromString initialDir of
                    Inl err \<Rightarrow> Inl err
                  | Inr lpstrInitialDir \<Rightarrow>
                      Inr \<lparr>LStructSize = lStructSize,
                           HwndOwner = parentHWND,
                           HInstance = 0,
                           LpstrFilter = Some lpstrFilter,
                           LpstrCustomFilter = None,
                           NMaxCustFilter = 0,
                           NFilterIndex = 0,
                           LpstrFile = None,
                           NMaxFile = 0,
                           LpstrFileTitle = None,
                           NMaxFileTitle = 0,
                           LpstrInitialDir = Some lpstrInitialDir,
                           LpstrTitle = Some lpstrTitle,
                           Flags = flags,
                           NFileOffset = 0,
                           NFileExtension = 0,
                           LpstrDefExt = None,
                           LCustData = 0,
                           LpfnHook = 0,
                           LpTemplateName = None,
                           PvReserved = 0,
                           DwReserved = 0,
                           FlagsEx = 0\<rparr>)))"

section \<open>The dialog functions\<close>

text \<open>
  The two entry points of \<open>comdlg32.dll\<close> are parameters of the model. A procedure gets the
  parameter structure and answers with its return value \<open>r1\<close> and the units it has stored
  into the buffer \<open>lpstrFile\<close>, from the first element on. A Go slice keeps its length, so
  \<open>store\<close> overwrites a prefix of the buffer and nothing beyond its end. The platform also
  fixes the word size and, with the release of Go that builds the package, the decoder
  of \<open>syscall.UTF16ToString\<close>.
\<close>

type_synonym proc = "TagOFNA \<Rightarrow> uintptr \<times> uint16 list"

record platform =
  ptrSize :: nat
  utf16Decoder :: "uint16 list \<Rightarrow> string"
  procGetSaveFileName :: proc
  procGetOpenFileName :: proc

definition store :: "uint16 list \<Rightarrow> uint16 list \<Rightarrow> uint16 list" where
  "store buf written = take (length buf) written @ drop (length written) buf"

text \<open>
  A dialog function returns its three results, and the model adds the list of the
  parameter structures that were passed to the operating system, one for each call.
\<close>

type_synonym dialog_result = "(string \<times> bool \<times> error option) \<times> TagOFNA list"

definition GetOpenFileName ::
  "platform \<Rightarrow> pointer \<Rightarrow> string \<Rightarrow> FileFilter \<Rightarrow> string \<Rightarrow> dialog_result" where
  "GetOpenFileName os parentHWND title filter' initialDir =
    (let flags = FileMustExist OR HideReadOnly OR PathMustExist
     in case NewTagOFNA (ptrSize os) parentHWND title filter' initialDir flags of
          Inl err \<Rightarrow> (('''', False, Some err), [])
        | Inr ofn0 \<Rightarrow>
            (let buf = replicate 1024 (0 :: uint16);
                 ofn = ofn0\<lparr>LpstrFile := Some buf, NMaxFile := 1024\<rparr>;
                 (ret, written) = procGetOpenFileName os ofn;
                 buf' = store buf written
             in if ret = 0 then (('''', False, None), [ofn])
                else ((UTF16ToString (utf16Decoder os) buf', True, None), [ofn])))"

definition GetSaveFileName ::
  "platform \<Rightarrow> pointer \<Rightarrow> string \<Rightarrow> FileFilter \<Rightarrow> string \<Rightarrow> dialog_result" where
  "GetSaveFileName os parentHWND title filter' initialDir =
    (let flags = HideReadOnly OR PathMustExist
     in case NewTagOFNA (ptrSize os) parentHWND title filter' initialDir flags of
          Inl err \<Rightarrow> (('''', False, Some err), [])
        | Inr ofn0 \<Rightarrow>
            (let buf = replicate 1024 (0 :: uint16);
                 ofn = ofn0\<lparr>LpstrFile := Some buf, NMaxFile := 1024\<rparr>;
                 (ret, written) = procGetSaveFileName os ofn;
                 buf' = store buf written
             in if ret = 0 then (('''', False, None), [ofn])
                else ((UTF16ToString (utf16Decoder os) buf', True, None), [ofn])))"

section \<open>Notions used in the statements\<close>

text \<open>The UTF-16 code units of a string, without a terminator.\<close>

definition utf16 :: "string \<Rightarrow> uint16 list" where
  "utf16 s = Encode (stringtoslicerune s)"

text \<open>The contents of the \<open>strings.Builder\<close> after the loop of \<open>ToRaw\<close> over the whole list.\<close>

fun built :: "FileFilter \<Rightarrow> string" where
  "built [] = []"
| "built (f # ff) = Name f @ ''|'' @ Pattern f @ ''|'' @ built ff"

text \<open>
  The packed layout \<open>name1\0pattern1\0name2\0pattern2\0...\<close>: every name and every pattern
  in UTF-16, each followed by one terminator unit, in the order of the list.
\<close>

fun packed :: "FileFilter \<Rightarrow> uint16 list" where
  "packed [] = []"
| "packed (f # ff) = utf16 (Name f) @ [0] @ utf16 (Pattern f) @ [0] @ packed ff"

text \<open>The number of \<open>|\<close> bytes in the names and patterns of a filter list.\<close>

fun pipes :: "FileFilter \<Rightarrow> nat" where
  "pipes [] = 0"
| "pipes (f # ff) =
     count_list (Name f) (CHR ''|'') + count_list (Pattern f) (CHR ''|'') + pipes ff"

text \<open>All flag constants of the package.\<close>

definition all_flags :: "uint32 list" where
  "all_flags =
    [AllowMultiSelect, CreatePrompt, DontAddToRecent, EnableHook, EnableIncludeNotify,
     EnableSizing, EnableTemplate, EnableTemplateHandle, Explorer, ExtensionDifferent,
     FileMustExist, ForceShowHidden, HideReadOnly, LongNames, NoChangeDir,
     NoDereferenceLinks, NoLongNames, NoNetworkButton, NoReadOnlyReturn, NoTestFileCreate,
     NoValidate, OverwritePrompt, PathMustExist, ReadOnly, ShareAware, ShowHelp]"

text \<open>A parameter structure with its flags replaced.\<close>

definition with_flags :: "uint32 \<Rightarrow> TagOFNA \<Rightarrow> TagOFNA" where
  "with_flags fl ofn = ofn\<lparr>Flags := fl\<rparr>"

text \<open>
  The platform on which the procedure behind \<open>GetOpenFileNameW\<close> does what the procedure
  behind \<open>GetSaveFileNameW\<close> does on the structure with the flags of \<open>GetSaveFileName\<close>.
\<close>

definition save_as_open :: "platform \<Rightarrow> platform" where
  "save_as_open os =
     os\<lparr>procGetOpenFileName :=
          (\<lambda>ofn. procGetSaveFileName os (with_flags (HideReadOnly OR PathMustExist) ofn))\<rparr>"

text \<open>The structure as the dialog functions pass it on: with the output buffer wired in.\<close>

definition wired :: "TagOFNA \<Rightarrow> TagOFNA" where
  "wired ofn0 = ofn0\<lparr>LpstrFile := Some (replicate 1024 0), NMaxFile := 1024\<rparr>"

text \<open>What a dialog function returns after the call of the operating system.\<close>

definition outcome ::
  "(uint16 list \<Rightarrow> string) \<Rightarrow> uintptr \<times> uint16 list \<Rightarrow> string \<times> bool \<times> error option" where
  "outcome decode res =
     (if fst res = 0 then ('''', False, None)
      else (UTF16ToString decode (store (replicate 1024 0) (snd res)), True, None))"


text \<open>
  Inputs for the examples: the filter list of the documentation, a platform on which
  both procedures return 0 and store nothing, and one on which both return 1 and store
  a path and its terminator. Both have pointers of 8 bytes and the decoder of the
  releases up to Go 1.20.
\<close>

definition example_filters :: FileFilter where
  "example_filters =
     [\<lparr>Name = ''Text Files'', Pattern = ''*.txt''\<rparr>, \<lparr>Name = ''All Files'', Pattern = ''*.*''\<rparr>]"

definition os_cancel :: platform where
  "os_cancel =
     \<lparr>ptrSize = 8, utf16Decoder = string_utf16_Decode,
      procGetSaveFileName = (\<lambda>ofn. (0, [])), procGetOpenFileName = (\<lambda>ofn. (0, []))\<rparr>"

definition os_select :: platform where
  "os_select =
     \<lparr>ptrSize = 8, utf16Decoder = string_utf16_Decode,
      procGetSaveFileName = (\<lambda>ofn. (1, utf16 ''C:/tmp/out.txt'' @ [0])),
      procGetOpenFileName = (\<lambda>ofn. (1, utf16 ''C:/tmp/in.txt'' @ [0]))\<rparr>"

section \<open>UTF-8 decoding and UTF-16 encoding of strings with ASCII separators\<close>

lemma not_iscont_ascii: "byte c < runeSelf \<Longrightarrow> \<not> iscont c"
  by (simp add: iscont_def utf8_consts)

lemma iscont_high: "iscont c \<Longrightarrow> \<not> byte c < runeSelf"
  by (simp add: iscont_def utf8_consts)

text \<open>A byte below \<open>RuneSelf\<close> is never part of a multi-byte sequence.\<close>

lemma decoderune_append:
  assumes "s \<noteq> []" and "byte c < runeSelf"
  shows "decoderune (s @ c # t) = decoderune s"
proof -
  have n: "\<not> iscont c" using assms(2) by (rule not_iscont_ascii)
  consider a where "s = [a]" | a b where "s = [a, b]" | a b d where "s = [a, b, d]"
    | a b d e u where "s = a # b # d # e # u"
    using assms(1) by (metis list.exhaust)
  then show ?thesis
  proof cases
    case 1 then show ?thesis using n by (simp add: decoderune_def)
  next
    case 2 then show ?thesis using n by (simp add: decoderune_def)
  next
    case 3 then show ?thesis using n by (simp add: decoderune_def)
  next
    case 4 then show ?thesis by (simp add: decoderune_def)
  qed
qed

lemma decoderune_cases:
  assumes "decoderune s = (r, w)"
  shows "(r = runeError \<and> w = 1) \<or>
         (rune1Max < r \<and> w = 2 \<and> 1 < length s \<and> t2 \<le> byte (s ! 0) \<and> iscont (s ! 1)) \<or>
         (rune1Max < r \<and> w = 3 \<and> 2 < length s \<and> t2 \<le> byte (s ! 0) \<and> iscont (s ! 1)
            \<and> iscont (s ! 2)) \<or>
         (rune1Max < r \<and> w = 4 \<and> 3 < length s \<and> t2 \<le> byte (s ! 0) \<and> iscont (s ! 1)
            \<and> iscont (s ! 2) \<and> iscont (s ! 3))"
proof -
  have c: "rune1Max < rune2Max" "rune2Max < rune3Max" "t2 < t3" "t3 < t4"
    by (simp_all add: utf8_consts)
  show ?thesis
    using assms c unfolding decoderune_def Let_def
    by (auto split: if_splits)
qed

lemma decoderune_le_length:
  assumes "s \<noteq> []" and "decoderune s = (r, w)"
  shows "1 \<le> w \<and> w \<le> length s"
proof -
  have "0 < length s" using assms(1) by simp
  then show ?thesis using decoderune_cases [OF assms(2)] by linarith
qed

lemma decoderune_taken_high:
  assumes "s \<noteq> []" and "\<not> byte (hd s) < runeSelf" and "decoderune s = (r, w)"
    and "c \<in> set (take w s)"
  shows "\<not> byte c < runeSelf"
proof -
  have wl: "w \<le> length s" using decoderune_le_length [OF assms(1,3)] by simp
  obtain i where i: "i < w" "c = s ! i"
    using assms(4) wl by (auto simp: in_set_conv_nth)
  have h0: "\<not> byte (s ! 0) < runeSelf" using assms(1,2) by (simp add: hd_conv_nth)
  have "i = 0 \<or> (i = 1 \<and> iscont (s ! 1)) \<or> (i = 2 \<and> iscont (s ! 2)) \<or> (i = 3 \<and> iscont (s ! 3))"
    using decoderune_cases [OF assms(3)] i(1) by (elim disjE conjE) (simp_all, presburger+)
  then show ?thesis using h0 i(2) iscont_high by auto
qed

lemma stringtoslicerune_append:
  assumes "byte c < runeSelf"
  shows "stringtoslicerune (a @ c # b) = stringtoslicerune a @ byte c # stringtoslicerune b"
proof (induction a rule: stringtoslicerune.induct)
  case 1
  show ?case using assms by simp
next
  case (2 x xs)
  show ?case
  proof (cases "byte x < runeSelf")
    case True
    then show ?thesis using 2(1) by simp
  next
    case False
    obtain r w where d: "decoderune (x # xs) = (r, w)" by (cases "decoderune (x # xs)")
    have d': "decoderune ((x # xs) @ c # b) = (r, w)"
      using decoderune_append [of "x # xs" c b] assms d by simp
    have w: "1 \<le> w \<and> w \<le> length (x # xs)" using decoderune_le_length [OF _ d] by simp
    then have dr: "drop w ((x # xs) @ c # b) = drop w (x # xs) @ c # b"
      by (simp only: drop_append) simp
    have ih: "stringtoslicerune (drop w (x # xs) @ c # b)
               = stringtoslicerune (drop w (x # xs)) @ byte c # stringtoslicerune b"
      using 2(2) [OF False d [symmetric]] .
    show ?thesis using False d d' dr ih by simp
  qed
qed

lemma Encode_append: "Encode (xs @ ys) = Encode xs @ Encode ys"
  by (induction xs) (auto split: prod.splits)

lemma byte_range: "0 \<le> byte c \<and> byte c < 256"
proof -
  have "byte c mod 256 = byte c" unfolding byte_def by (rule of_char_mod_256)
  moreover have "0 \<le> byte c mod 256 \<and> byte c mod 256 < 256" by simp
  ultimately show ?thesis by simp
qed

lemma unit_of_byte_eq: "((word_of_int (byte x) :: uint16) = word_of_int (byte k)) = (x = k)"
proof -
  have "take_bit 16 (byte x) = byte x" "take_bit 16 (byte k) = byte k"
    using byte_range [of x] byte_range [of k] by (simp_all add: take_bit_int_eq_self)
  then have "((word_of_int (byte x) :: uint16) = word_of_int (byte k)) = (byte x = byte k)"
    by (simp add: word_of_int_eq_iff)
  then show ?thesis by (simp add: byte_def)
qed

lemma uint_unit: "0 \<le> r \<Longrightarrow> r < 65536 \<Longrightarrow> uint (word_of_int r :: uint16) = r"
  by (simp add: uint_word_of_int take_bit_int_eq_self)

text \<open>A rune that \<open>decoderune\<close> returns is encoded in units of 128 and above.\<close>

lemma Encode_single_high:
  assumes "r = runeError \<or> rune1Max < r" and "u \<in> set (Encode [r])"
  shows "128 \<le> uint u"
proof -
  have r: "128 \<le> r" using assms(1) by (auto simp: utf8_consts)
  consider (n) "(0 \<le> r \<and> r < surr1) \<or> (surr3 \<le> r \<and> r < surrSelf)"
    | (p) "\<not> ((0 \<le> r \<and> r < surr1) \<or> (surr3 \<le> r \<and> r < surrSelf))"
          "surrSelf \<le> r \<and> r \<le> maxRune"
    | (d) "\<not> ((0 \<le> r \<and> r < surr1) \<or> (surr3 \<le> r \<and> r < surrSelf))"
          "\<not> (surrSelf \<le> r \<and> r \<le> maxRune)"
    by blast
  then show ?thesis
  proof cases
    case n
    have "Encode [r] = [word_of_int r]" by (simp add: n)
    then have "u = word_of_int r" using assms(2) by simp
    moreover have "r < 65536" using n by (auto simp: utf16_consts)
    ultimately show ?thesis using r uint_unit [of r] by simp
  next
    case p
    define a where "a = drop_bit 10 (r - surrSelf) AND (0x3ff :: int)"
    define b where "b = (r - surrSelf) AND (0x3ff :: int)"
    have a: "0 \<le> a \<and> a \<le> 0x3ff" unfolding a_def by (simp add: AND_upper2')
    have b: "0 \<le> b \<and> b \<le> 0x3ff" unfolding b_def by (simp add: AND_upper2')
    have "EncodeRune r = (surr1 + a, surr2 + b)"
      using p by (auto simp: EncodeRune_def Let_def a_def b_def)
    then have "Encode [r] = [word_of_int (surr1 + a), word_of_int (surr2 + b)]"
      by (simp add: p)
    then have "u = word_of_int (surr1 + a) \<or> u = word_of_int (surr2 + b)"
      using assms(2) by auto
    then show ?thesis
    proof
      assume "u = word_of_int (surr1 + a)"
      then show ?thesis using a uint_unit [of "surr1 + a"] by (simp add: utf16_consts)
    next
      assume "u = word_of_int (surr2 + b)"
      then show ?thesis using b uint_unit [of "surr2 + b"] by (simp add: utf16_consts)
    qed
  next
    case d
    have "Encode [r] = [word_of_int replacementChar]" by (simp add: d)
    then have "u = word_of_int replacementChar" using assms(2) by simp
    then show ?thesis by (simp add: utf16_consts)
  qed
qed

text \<open>
  A unit below 128 occurs in the UTF-16 form of a string exactly as often as the byte of
  that value occurs in the string.
\<close>

lemma count_utf16_ascii:
  assumes "byte k < runeSelf"
  shows "count_list (utf16 s) (word_of_int (byte k)) = count_list s k"
  unfolding utf16_def
proof (induction s rule: stringtoslicerune.induct)
  case 1
  show ?case by simp
next
  case (2 x xs)
  let ?u = "word_of_int (byte k) :: uint16"
  have uk: "uint ?u < 128"
    using uint_unit [of "byte k"] byte_range [of k] assms by (simp add: utf8_consts)
  show ?case
  proof (cases "byte x < runeSelf")
    case True
    have "0 \<le> byte x \<and> byte x < surr1"
      using True byte_range [of x] by (simp add: utf8_consts utf16_consts)
    then have "Encode (stringtoslicerune (x # xs))
                = word_of_int (byte x) # Encode (stringtoslicerune xs)"
      using True by simp
    then show ?thesis using 2(1) [OF True] unit_of_byte_eq [of x k] by auto
  next
    case False
    obtain r w where d: "decoderune (x # xs) = (r, w)" by (cases "decoderune (x # xs)")
    have r: "r = runeError \<or> rune1Max < r" using decoderune_cases [OF d] by blast
    have "?u \<notin> set (Encode [r])"
    proof
      assume "?u \<in> set (Encode [r])"
      from Encode_single_high [OF r this] uk show False by simp
    qed
    then have c0: "count_list (Encode [r]) ?u = 0" by (rule count_notin)
    have "stringtoslicerune (x # xs) = [r] @ stringtoslicerune (drop w (x # xs))"
      using False d by simp
    then have e: "Encode (stringtoslicerune (x # xs))
              = Encode [r] @ Encode (stringtoslicerune (drop w (x # xs)))"
      by (simp only: Encode_append)
    have ih: "count_list (Encode (stringtoslicerune (drop w (x # xs)))) ?u
               = count_list (drop w (x # xs)) k"
      using 2(2) [OF False d [symmetric]] .
    have "k \<notin> set (take w (x # xs))"
      using decoderune_taken_high [OF _ _ d, of k] False assms by auto
    then have "count_list (take w (x # xs)) k = 0" by (simp add: count_list_0_iff)
    then have "count_list (x # xs) k = count_list (drop w (x # xs)) k"
      using count_list_append [of "take w (x # xs)" "drop w (x # xs)" k]
      by (simp only: append_take_drop_id)
    then show ?thesis using e c0 ih by (simp only: count_list_append)
  qed
qed

section \<open>The encoder, case by case\<close>


lemma unit_pipe: "(word_of_int (byte (CHR ''|'')) :: uint16) = 0x7C"
  by (simp add: byte_def)

lemma unit_nul: "(word_of_int (byte (CHR 0x00)) :: uint16) = 0"
  by (simp add: byte_def)

lemma ascii_pipe: "byte (CHR ''|'') < runeSelf"
  by (simp add: byte_def runeSelf_def)

lemma ascii_nul: "byte (CHR 0x00) < runeSelf"
  by (simp add: byte_def runeSelf_def)

lemma utf16_append_ascii:
  assumes "byte c < runeSelf"
  shows "utf16 (a @ c # b) = utf16 a @ word_of_int (byte c) # utf16 b"
proof -
  have "0 \<le> byte c \<and> byte c < surr1"
    using assms byte_range [of c] by (simp add: utf8_consts utf16_consts)
  then have "Encode (byte c # stringtoslicerune b) = word_of_int (byte c) # Encode (stringtoslicerune b)"
    by simp
  then show ?thesis
    unfolding utf16_def stringtoslicerune_append [OF assms] Encode_append by simp
qed

lemma utf16_Nil: "utf16 [] = []"
  by (simp add: utf16_def)

lemma ToRaw_loop_ok:
  assumes "\<forall>f\<in>set ff. CHR '' '' \<notin> set (Pattern f)"
  shows "ToRaw_loop sb ff = Inr (sb @ built ff)"
  using assms by (induction ff arbitrary: sb) (simp_all add: ContainsRune_def)

lemma ToRaw_loop_space:
  assumes "\<exists>f\<in>set ff. CHR '' '' \<in> set (Pattern f)"
  shows "ToRaw_loop sb ff = Inl (ErrorString ''pattern contains a space'')"
  using assms by (induction ff arbitrary: sb) (auto simp: ContainsRune_def Let_def)

lemma ToRaw_subst_append: "ToRaw_subst (xs @ ys) = ToRaw_subst xs @ ToRaw_subst ys"
  by (induction xs) simp_all

lemma ToRaw_subst_id: "0x7C \<notin> set us \<Longrightarrow> ToRaw_subst us = us"
  by (induction us) auto

lemma ToRaw_subst_no_pipe: "0x7C \<notin> set (ToRaw_subst us)"
  by (induction us) auto

lemma count_ToRaw_subst:
  "count_list (ToRaw_subst us) 0 = count_list us 0 + count_list us 0x7C"
  by (induction us) auto

lemma UTF16FromString_ok:
  assumes "CHR 0x00 \<notin> set s"
  shows "UTF16FromString s = Inr (utf16 s @ [0])"
proof -
  have "utf16 (s @ CHR 0x00 # []) = utf16 s @ word_of_int (byte (CHR 0x00)) # utf16 []"
    by (rule utf16_append_ascii [OF ascii_nul])
  then show ?thesis using assms by (simp add: UTF16FromString_def utf16_def unit_nul)
qed

lemma UTF16PtrFromString_cases:
  "UTF16PtrFromString s = (if CHR 0x00 \<in> set s then Inl EINVAL else Inr (utf16 s @ [0]))"
  by (simp add: UTF16PtrFromString_def UTF16FromString_ok addr0_def)
     (simp add: UTF16FromString_def)

lemma ToRaw_cases:
  "ToRaw ff =
    (if \<exists>f\<in>set ff. CHR '' '' \<in> set (Pattern f) then
       Inl (ErrorString ''pattern contains a space'')
     else if CHR 0x00 \<in> set (built ff) then Inl EINVAL
     else Inr (ToRaw_subst (utf16 (built ff)) @ [0, 0]))"
proof (cases "\<exists>f\<in>set ff. CHR '' '' \<in> set (Pattern f)")
  case True
  then show ?thesis using ToRaw_loop_space [OF True, of "[]"] by (simp add: ToRaw_def)
next
  case False
  then have l: "ToRaw_loop [] ff = Inr (built ff)" using ToRaw_loop_ok [of ff "[]"] by simp
  show ?thesis
  proof (cases "CHR 0x00 \<in> set (built ff)")
    case True
    then have "UTF16FromString (built ff @ ''|'') = Inl EINVAL" by (simp add: UTF16FromString_def)
    then show ?thesis using False True l by (simp add: ToRaw_def)
  next
    case n: False
    have "utf16 (built ff @ CHR ''|'' # []) = utf16 (built ff) @ word_of_int (byte (CHR ''|'')) # utf16 []"
      by (rule utf16_append_ascii [OF ascii_pipe])
    then have u: "utf16 (built ff @ ''|'') = utf16 (built ff) @ [0x7C]"
      by (simp add: unit_pipe utf16_Nil)
    have "UTF16FromString (built ff @ ''|'') = Inr (utf16 (built ff @ ''|'') @ [0])"
      using n by (intro UTF16FromString_ok) simp
    then have "UTF16FromString (built ff @ ''|'') = Inr (utf16 (built ff) @ [0x7C, 0])"
      using u by simp
    then show ?thesis using False n l by (simp add: ToRaw_def ToRaw_subst_append addr0_def)
  qed
qed

section \<open>The packed layout\<close>


lemma count_utf16_pipe: "count_list (utf16 s) 0x7C = count_list s (CHR ''|'')"
  using count_utf16_ascii [OF ascii_pipe, of s] by (simp only: unit_pipe)

lemma count_utf16_nul: "count_list (utf16 s) 0 = count_list s (CHR 0x00)"
  using count_utf16_ascii [OF ascii_nul, of s] by (simp only: unit_nul)

lemma utf16_built_Cons:
  "utf16 (built (f # ff)) =
     utf16 (Name f) @ [0x7C] @ utf16 (Pattern f) @ [0x7C] @ utf16 (built ff)"
proof -
  have "utf16 (Pattern f @ CHR ''|'' # built ff) = utf16 (Pattern f) @ 0x7C # utf16 (built ff)"
    using utf16_append_ascii [OF ascii_pipe] by (simp only: unit_pipe)
  moreover have "utf16 (Name f @ CHR ''|'' # (Pattern f @ CHR ''|'' # built ff))
      = utf16 (Name f) @ 0x7C # utf16 (Pattern f @ CHR ''|'' # built ff)"
    using utf16_append_ascii [OF ascii_pipe] by (simp only: unit_pipe)
  ultimately show ?thesis by simp
qed

lemma nul_in_built:
  "(CHR 0x00 \<in> set (built ff)) =
     (\<exists>f\<in>set ff. CHR 0x00 \<in> set (Name f) \<or> CHR 0x00 \<in> set (Pattern f))"
  by (induction ff) auto

lemma count_pipe_built: "count_list (built ff) (CHR ''|'') = 2 * length ff + pipes ff"
  by (induction ff) simp_all

lemma subst_built_packed:
  assumes "\<forall>f\<in>set ff. CHR ''|'' \<notin> set (Name f) \<and> CHR ''|'' \<notin> set (Pattern f)"
  shows "ToRaw_subst (utf16 (built ff)) = packed ff"
  using assms
proof (induction ff)
  case Nil
  show ?case by (simp add: utf16_Nil)
next
  case (Cons f ff)
  have "count_list (utf16 (Name f)) 0x7C = 0" "count_list (utf16 (Pattern f)) 0x7C = 0"
    using Cons.prems by (simp_all add: count_utf16_pipe)
  then have "ToRaw_subst (utf16 (Name f)) = utf16 (Name f)"
    "ToRaw_subst (utf16 (Pattern f)) = utf16 (Pattern f)"
    by (simp_all add: count_list_0_iff ToRaw_subst_id)
  moreover have "ToRaw_subst (utf16 (built ff)) = packed ff" using Cons by simp
  moreover have "ToRaw_subst [0x7C] = [0]" by simp
  ultimately show ?case by (simp only: utf16_built_Cons ToRaw_subst_append packed.simps)
qed

lemma count_nul_packed:
  assumes "\<forall>f\<in>set ff. CHR 0x00 \<notin> set (Name f) \<and> CHR 0x00 \<notin> set (Pattern f)"
  shows "count_list (packed ff) 0 = 2 * length ff"
  using assms by (induction ff) (simp_all add: count_utf16_nul)

section \<open>The dialog functions, unfolded\<close>


lemma GetOpenFileName_unfold:
  "GetOpenFileName os h t f d =
    (case NewTagOFNA (ptrSize os) h t f d (FileMustExist OR HideReadOnly OR PathMustExist) of
       Inl err \<Rightarrow> (('''', False, Some err), [])
     | Inr ofn0 \<Rightarrow>
         (outcome (utf16Decoder os) (procGetOpenFileName os (wired ofn0)), [wired ofn0]))"
  by (simp add: GetOpenFileName_def outcome_def wired_def Let_def split: sum.splits prod.splits)

lemma GetSaveFileName_unfold:
  "GetSaveFileName os h t f d =
    (case NewTagOFNA (ptrSize os) h t f d (HideReadOnly OR PathMustExist) of
       Inl err \<Rightarrow> (('''', False, Some err), [])
     | Inr ofn0 \<Rightarrow>
         (outcome (utf16Decoder os) (procGetSaveFileName os (wired ofn0)), [wired ofn0]))"
  by (simp add: GetSaveFileName_def outcome_def wired_def Let_def split: sum.splits prod.splits)

lemma NewTagOFNA_flags:
  "NewTagOFNA p h t f d fl' = map_sum id (with_flags fl') (NewTagOFNA p h t f d fl)"
  by (simp add: NewTagOFNA_def with_flags_def Let_def split: sum.splits)

lemma NewTagOFNA_fields:
  assumes "NewTagOFNA p h t f d fl = Inr ofn0"
  shows "Flags ofn0 = fl \<and> LStructSize ofn0 = of_nat (Sizeof_TagOFNA p)"
  using assms by (auto simp: NewTagOFNA_def Let_def split: sum.splits)

lemma NewTagOFNA_err:
  "(\<exists>err. NewTagOFNA p h t f d fl = Inl err) =
     (isl (UTF16PtrFromString t) \<or> isl (ToRaw f) \<or> isl (UTF16PtrFromString d))"
  by (auto simp: NewTagOFNA_def Let_def split: sum.splits)

lemma NewTagOFNA_err_same:
  "NewTagOFNA p h t f d fl = Inl err \<Longrightarrow> NewTagOFNA p h t f d fl' = Inl err"
  by (auto simp: NewTagOFNA_def Let_def split: sum.splits)




lemma encoding_fails_iff:
  "isl (UTF16PtrFromString s) = (CHR 0x00 \<in> set s)"
  "isl (ToRaw ff) = ((\<exists>f\<in>set ff. CHR '' '' \<in> set (Pattern f)) \<or>
                     (\<exists>f\<in>set ff. CHR 0x00 \<in> set (Name f) \<or> CHR 0x00 \<in> set (Pattern f)))"
  by (simp_all add: UTF16PtrFromString_cases ToRaw_cases nul_in_built)



lemma open_flags_bits:
  "\<forall>fl\<in>set all_flags. ((FileMustExist OR HideReadOnly OR PathMustExist) AND fl \<noteq> 0) =
     (fl \<in> {FileMustExist, HideReadOnly, PathMustExist})"
  by (simp add: all_flags_def flag_defs)

lemma save_flags_bits:
  "\<forall>fl\<in>set all_flags. ((HideReadOnly OR PathMustExist) AND fl \<noteq> 0) =
     (fl \<in> {HideReadOnly, PathMustExist})"
  by (simp add: all_flags_def flag_defs)

lemma trace_open:
  assumes "ofn \<in> set (snd (GetOpenFileName os h t f d))"
  shows "\<exists>ofn0. NewTagOFNA (ptrSize os) h t f d (FileMustExist OR HideReadOnly OR PathMustExist)
            = Inr ofn0 \<and> ofn = wired ofn0"
  using assms by (auto simp: GetOpenFileName_unfold split: sum.splits)

lemma trace_save:
  assumes "ofn \<in> set (snd (GetSaveFileName os h t f d))"
  shows "\<exists>ofn0. NewTagOFNA (ptrSize os) h t f d (HideReadOnly OR PathMustExist)
            = Inr ofn0 \<and> ofn = wired ofn0"
  using assms by (auto simp: GetSaveFileName_unfold split: sum.splits)

lemma wired_fields:
  "Flags (wired ofn0) = Flags ofn0" "LStructSize (wired ofn0) = LStructSize ofn0"
  "LpstrFile (wired ofn0) = Some (replicate 1024 0)" "NMaxFile (wired ofn0) = 1024"
  by (simp_all add: wired_def)

lemma GetSave_as_Open:
  "GetSaveFileName os h t f d =
     (fst (GetOpenFileName (save_as_open os) h t f d),
      map (with_flags (HideReadOnly OR PathMustExist))
        (snd (GetOpenFileName (save_as_open os) h t f d)))"
proof -
  let ?o = "FileMustExist OR HideReadOnly OR PathMustExist"
  let ?s = "HideReadOnly OR PathMustExist"
  have p: "ptrSize (save_as_open os) = ptrSize os" by (simp add: save_as_open_def)
  have u: "utf16Decoder (save_as_open os) = utf16Decoder os" by (simp add: save_as_open_def)
  have w: "\<And>x. wired (with_flags ?s x) = with_flags ?s (wired x)"
    by (simp add: wired_def with_flags_def)
  have pr: "\<And>x. procGetOpenFileName (save_as_open os) x = procGetSaveFileName os (with_flags ?s x)"
    by (simp add: save_as_open_def)
  have n: "NewTagOFNA (ptrSize os) h t f d ?s = map_sum id (with_flags ?s) (NewTagOFNA (ptrSize os) h t f d ?o)"
    by (rule NewTagOFNA_flags)
  show ?thesis
    unfolding GetOpenFileName_unfold GetSaveFileName_unfold p u n
    by (cases "NewTagOFNA (ptrSize os) h t f d ?o") (simp_all add: w pr)
qed


section \<open>ASCII paths survive the decoding\<close>









text \<open>The two decoders differ on an unpaired surrogate.\<close>

lemma decoders_on_unpaired_surrogate:
  "string_utf16_Decode [0xD800] = [CHR 0xEF, CHR 0xBF, CHR 0xBD]"
  "decodeWTF16 [0xD800] = [CHR 0xED, CHR 0xA0, CHR 0x80]"
  by code_simp+

section \<open>The claims\<close>

subsection \<open>The layout of the packed filter\<close>

text \<open>
  C1, as amended. For every filter list whose patterns contain no space and whose names
  and patterns contain neither a NUL byte nor the character \<open>|\<close>, \<open>FileFilter.ToRaw\<close>
  returns the buffer \<open>name1\0pattern1\0name2\0pattern2\0...\0\0\<close> followed by one further
  terminator unit, the NUL that \<open>syscall.UTF16FromString\<close> appends: each name and each
  pattern is followed by one terminator unit, in the order of the list, and two more
  terminator units follow the last pattern's own, so that the buffer holds exactly
  \<open>2 * len(list) + 2\<close> terminator units.
\<close>

theorem ToRaw_layout:
  assumes "\<forall>f\<in>set ff. CHR '' '' \<notin> set (Pattern f)"
    and "\<forall>f\<in>set ff. CHR 0x00 \<notin> set (Name f) \<and> CHR 0x00 \<notin> set (Pattern f)"
    and "\<forall>f\<in>set ff. CHR ''|'' \<notin> set (Name f) \<and> CHR ''|'' \<notin> set (Pattern f)"
  shows "ToRaw ff = Inr (packed ff @ [0, 0]) \<and>
         count_list (packed ff @ [0, 0]) 0 = 2 * length ff + 2"
proof -
  have "CHR 0x00 \<notin> set (built ff)" using assms(2) by (simp add: nul_in_built)
  then have "ToRaw ff = Inr (ToRaw_subst (utf16 (built ff)) @ [0, 0])"
    using assms(1) by (simp add: ToRaw_cases)
  then show ?thesis
    using subst_built_packed [OF assms(3)] count_nul_packed [OF assms(2)] by simp
qed

text \<open>
  The filter list of the documentation encodes to
  \<open>Text Files\0*.txt\0All Files\0*.*\0\0\0\<close>, with six terminator units.
\<close>

theorem ToRaw_layout_witness:
  "ToRaw example_filters =
     Inr (utf16 ''Text Files'' @ [0] @ utf16 ''*.txt'' @ [0] @
          utf16 ''All Files'' @ [0] @ utf16 ''*.*'' @ [0] @ [0, 0]) \<and>
   count_list (utf16 ''Text Files'' @ [0] @ utf16 ''*.txt'' @ [0] @
          utf16 ''All Files'' @ [0] @ utf16 ''*.*'' @ [0] @ [0, 0]) 0 = 6"
proof -
  have h1: "\<forall>f\<in>set example_filters. CHR '' '' \<notin> set (Pattern f)"
    by (simp add: example_filters_def)
  have h2: "\<forall>f\<in>set example_filters. CHR 0x00 \<notin> set (Name f) \<and> CHR 0x00 \<notin> set (Pattern f)"
    by (simp add: example_filters_def)
  have h3: "\<forall>f\<in>set example_filters. CHR ''|'' \<notin> set (Name f) \<and> CHR ''|'' \<notin> set (Pattern f)"
    by (simp add: example_filters_def)
  show ?thesis using ToRaw_layout [OF h1 h2 h3] by (simp add: example_filters_def)
qed

text \<open>
  The claim as it is written fails in three ways: the buffer of the documented example
  ends in three terminator units, not two, and holds six of them, not five; a \<open>|\<close> in a
  name becomes one more terminator; a NUL byte in a name makes the encoder fail.
\<close>

theorem ToRaw_layout_counterexample:
  "ToRaw example_filters \<noteq>
     Inr (utf16 ''Text Files'' @ [0] @ utf16 ''*.txt'' @ [0] @
          utf16 ''All Files'' @ [0] @ utf16 ''*.*'' @ [0, 0]) \<and>
   ToRaw example_filters =
     Inr (utf16 ''Text Files'' @ [0] @ utf16 ''*.txt'' @ [0] @
          utf16 ''All Files'' @ [0] @ utf16 ''*.*'' @ [0, 0, 0]) \<and>
   count_list (utf16 ''Text Files'' @ [0] @ utf16 ''*.txt'' @ [0] @
          utf16 ''All Files'' @ [0] @ utf16 ''*.*'' @ [0, 0, 0]) 0 = 6 \<and>
   2 * length example_filters + 1 = 5 \<and>
   ToRaw [\<lparr>Name = ''a|b'', Pattern = ''*.txt''\<rparr>] =
     Inr (utf16 ''a'' @ [0] @ utf16 ''b'' @ [0] @ utf16 ''*.txt'' @ [0, 0, 0]) \<and>
   ToRaw [\<lparr>Name = [CHR ''a'', CHR 0x00], Pattern = ''*.txt''\<rparr>] = Inl EINVAL"
  by code_simp

subsection \<open>A pattern with a space\<close>

text \<open>
  C2, as amended. For every filter list in which the pattern of some entry contains a
  space, \<open>FileFilter.ToRaw\<close> returns the error \<open>pattern contains a space\<close> and no buffer,
  and the dialog functions return \<open>("", false, err)\<close> with a non-nil error before any call
  of the operating system. That error is the error of \<open>ToRaw\<close> unless the title contains
  a NUL byte: the title is encoded first, and then its \<open>EINVAL\<close> is returned.
\<close>

theorem pattern_space_rejected:
  assumes "\<exists>f\<in>set ff. CHR '' '' \<in> set (Pattern f)"
  shows "ToRaw ff = Inl (ErrorString ''pattern contains a space'') \<and>
         GetOpenFileName os h title ff dir =
           (('''', False, Some (if CHR 0x00 \<in> set title then EINVAL
                                else ErrorString ''pattern contains a space'')), []) \<and>
         GetSaveFileName os h title ff dir =
           (('''', False, Some (if CHR 0x00 \<in> set title then EINVAL
                                else ErrorString ''pattern contains a space'')), [])"
proof -
  have r: "ToRaw ff = Inl (ErrorString ''pattern contains a space'')"
    using assms by (simp add: ToRaw_cases)
  have "\<And>fl. NewTagOFNA (ptrSize os) h title ff dir fl =
      Inl (if CHR 0x00 \<in> set title then EINVAL else ErrorString ''pattern contains a space'')"
    by (simp add: NewTagOFNA_def Let_def UTF16PtrFromString_cases r)
  then show ?thesis using r by (simp add: GetOpenFileName_unfold GetSaveFileName_unfold)
qed

theorem pattern_space_rejected_witness:
  "ToRaw [\<lparr>Name = ''Bad'', Pattern = ''*.* txt''\<rparr>] =
     Inl (ErrorString ''pattern contains a space'') \<and>
   GetOpenFileName os_select 0 ''Open'' [\<lparr>Name = ''Bad'', Pattern = ''*.* txt''\<rparr>] ''C:'' =
     (('''', False, Some (ErrorString ''pattern contains a space'')), []) \<and>
   GetSaveFileName os_select 0 ''Open'' [\<lparr>Name = ''Bad'', Pattern = ''*.* txt''\<rparr>] ''C:'' =
     (('''', False, Some (ErrorString ''pattern contains a space'')), [])"
proof -
  have h: "\<exists>f\<in>set [\<lparr>Name = ''Bad'', Pattern = ''*.* txt''\<rparr>]. CHR '' '' \<in> set (Pattern f)"
    by simp
  show ?thesis using pattern_space_rejected [OF h, of os_select 0 "''Open''" "''C:''"] by simp
qed

text \<open>
  With a NUL byte in the title, the dialog function returns \<open>EINVAL\<close>, which is not the
  error of \<open>ToRaw\<close>.
\<close>

theorem pattern_space_rejected_counterexample:
  "ToRaw [\<lparr>Name = ''Bad'', Pattern = ''*.* txt''\<rparr>] =
     Inl (ErrorString ''pattern contains a space'') \<and>
   fst (GetOpenFileName os_select 0 [CHR 0x00] [\<lparr>Name = ''Bad'', Pattern = ''*.* txt''\<rparr>] ''C:'') =
     ('''', False, Some EINVAL) \<and>
   fst (GetSaveFileName os_select 0 [CHR 0x00] [\<lparr>Name = ''Bad'', Pattern = ''*.* txt''\<rparr>] ''C:'') =
     ('''', False, Some EINVAL) \<and>
   EINVAL \<noteq> ErrorString ''pattern contains a space''"
  by code_simp

subsection \<open>Cancellation\<close>

text \<open>
  C3. When the call of the operating system returns zero, \<open>GetOpenFileName\<close> and
  \<open>GetSaveFileName\<close> return exactly \<open>("", false, nil)\<close>: an empty path, \<open>found = false\<close> and
  no error. The call is the one on the structure \<open>ofn\<close> that the function passes on.
\<close>

theorem dialog_cancel:
  "(snd (GetOpenFileName os h t f d) = [ofn] \<longrightarrow> fst (procGetOpenFileName os ofn) = 0 \<longrightarrow>
      fst (GetOpenFileName os h t f d) = ('''', False, None)) \<and>
   (snd (GetSaveFileName os h t f d) = [ofn] \<longrightarrow> fst (procGetSaveFileName os ofn) = 0 \<longrightarrow>
      fst (GetSaveFileName os h t f d) = ('''', False, None))"
  by (auto simp: GetOpenFileName_unfold GetSaveFileName_unfold outcome_def split: sum.splits)

theorem dialog_cancel_witness:
  "length (snd (GetOpenFileName os_cancel 0 ''Pick'' example_filters ''C:'')) = 1 \<and>
   fst (GetOpenFileName os_cancel 0 ''Pick'' example_filters ''C:'') = ('''', False, None) \<and>
   length (snd (GetSaveFileName os_cancel 0 ''Pick'' example_filters ''C:'')) = 1 \<and>
   fst (GetSaveFileName os_cancel 0 ''Pick'' example_filters ''C:'') = ('''', False, None)"
proof -
  let ?O = "GetOpenFileName os_cancel 0 ''Pick'' example_filters ''C:''"
  let ?S = "GetSaveFileName os_cancel 0 ''Pick'' example_filters ''C:''"
  have o: "snd ?O = [hd (snd ?O)]" by code_simp
  have s: "snd ?S = [hd (snd ?S)]" by code_simp
  have po: "fst (procGetOpenFileName os_cancel (hd (snd ?O))) = 0" by (simp add: os_cancel_def)
  have ps: "fst (procGetSaveFileName os_cancel (hd (snd ?S))) = 0" by (simp add: os_cancel_def)
  have "fst ?O = ('''', False, None)"
    using dialog_cancel [of os_cancel 0 "''Pick''" example_filters "''C:''" "hd (snd ?O)"] o po
    by blast
  moreover have "fst ?S = ('''', False, None)"
    using dialog_cancel [of os_cancel 0 "''Pick''" example_filters "''C:''" "hd (snd ?S)"] s ps
    by blast
  moreover have "length (snd ?O) = 1" using o by (metis length_Cons list.size(3) One_nat_def)
  moreover have "length (snd ?S) = 1" using s by (metis length_Cons list.size(3) One_nat_def)
  ultimately show ?thesis by simp
qed

subsection \<open>Encoding errors\<close>

text \<open>
  C4. When the encoding of the title, of the filter list or of the initial directory
  fails, \<open>GetOpenFileName\<close> and \<open>GetSaveFileName\<close> return \<open>("", false, err)\<close> with a non-nil
  error, and the operating system is not called: the list of calls is empty, and nothing
  but the three results is left.
\<close>

theorem dialog_encoding_error:
  assumes "isl (UTF16PtrFromString title) \<or> isl (ToRaw f) \<or> isl (UTF16PtrFromString dir)"
  shows "\<exists>err. GetOpenFileName os h title f dir = (('''', False, Some err), []) \<and>
               GetSaveFileName os h title f dir = (('''', False, Some err), [])"
proof -
  obtain err where e: "NewTagOFNA (ptrSize os) h title f dir
      (FileMustExist OR HideReadOnly OR PathMustExist) = Inl err"
    using assms NewTagOFNA_err by blast
  then have "NewTagOFNA (ptrSize os) h title f dir (HideReadOnly OR PathMustExist) = Inl err"
    by (rule NewTagOFNA_err_same)
  then show ?thesis using e by (simp add: GetOpenFileName_unfold GetSaveFileName_unfold)
qed

theorem dialog_encoding_error_witness:
  "isl (UTF16PtrFromString ''Pick'') \<or> isl (ToRaw example_filters) \<or>
     isl (UTF16PtrFromString [CHR ''C'', CHR 0x00]) \<and>
   GetOpenFileName os_select 0 ''Pick'' example_filters [CHR ''C'', CHR 0x00] =
     (('''', False, Some EINVAL), []) \<and>
   GetSaveFileName os_select 0 ''Pick'' example_filters [CHR ''C'', CHR 0x00] =
     (('''', False, Some EINVAL), [])"
proof -
  have h: "isl (UTF16PtrFromString ''Pick'') \<or> isl (ToRaw example_filters) \<or>
     isl (UTF16PtrFromString [CHR ''C'', CHR 0x00])"
    by (simp add: encoding_fails_iff)
  have n: "\<And>fl. NewTagOFNA 8 0 ''Pick'' example_filters [CHR ''C'', CHR 0x00] fl = Inl EINVAL"
    by (simp add: NewTagOFNA_def Let_def UTF16PtrFromString_cases ToRaw_cases nul_in_built
        example_filters_def)
  obtain err where e:
    "GetOpenFileName os_select 0 ''Pick'' example_filters [CHR ''C'', CHR 0x00] =
       (('''', False, Some err), [])"
    "GetSaveFileName os_select 0 ''Pick'' example_filters [CHR ''C'', CHR 0x00] =
       (('''', False, Some err), [])"
    using dialog_encoding_error [OF h, of os_select 0] by blast
  have "err = EINVAL"
    using e(1) n by (simp add: GetOpenFileName_unfold os_select_def)
  then show ?thesis using e h by simp
qed

subsection \<open>Flags\<close>

text \<open>
  C5. Every structure that \<open>GetSaveFileName\<close> passes to the operating system has exactly
  the flags \<open>HideReadOnly\<close> and \<open>PathMustExist\<close>: \<open>FileMustExist\<close> is not set, and of all
  flags of the package only those two are. Apart from the flags, \<open>GetSaveFileName\<close> is
  \<open>GetOpenFileName\<close>: it returns what \<open>GetOpenFileName\<close> returns where the procedure of
  the open dialog is that of the save dialog, and passes the same structure, up to its flags.
\<close>

theorem GetSaveFileName_flags:
  "(\<forall>ofn\<in>set (snd (GetSaveFileName os h t f d)).
      Flags ofn = HideReadOnly OR PathMustExist \<and>
      Flags ofn AND FileMustExist = 0 \<and>
      (\<forall>fl\<in>set all_flags. (Flags ofn AND fl \<noteq> 0) = (fl \<in> {HideReadOnly, PathMustExist}))) \<and>
   GetSaveFileName os h t f d =
     (fst (GetOpenFileName (save_as_open os) h t f d),
      map (with_flags (HideReadOnly OR PathMustExist))
        (snd (GetOpenFileName (save_as_open os) h t f d)))"
proof (intro conjI ballI)
  fix ofn assume "ofn \<in> set (snd (GetSaveFileName os h t f d))"
  then obtain ofn0 where
    "NewTagOFNA (ptrSize os) h t f d (HideReadOnly OR PathMustExist) = Inr ofn0"
    "ofn = wired ofn0"
    using trace_save by blast
  then have fl: "Flags ofn = HideReadOnly OR PathMustExist"
    using NewTagOFNA_fields by (simp add: wired_fields)
  then show "Flags ofn = HideReadOnly OR PathMustExist" .
  show "Flags ofn AND FileMustExist = 0" unfolding fl by (simp add: flag_defs)
  fix fl' assume "fl' \<in> set all_flags"
  then show "(Flags ofn AND fl' \<noteq> 0) = (fl' \<in> {HideReadOnly, PathMustExist})"
    unfolding fl using save_flags_bits by blast
next
  show "GetSaveFileName os h t f d =
     (fst (GetOpenFileName (save_as_open os) h t f d),
      map (with_flags (HideReadOnly OR PathMustExist))
        (snd (GetOpenFileName (save_as_open os) h t f d)))"
    by (rule GetSave_as_Open)
qed

theorem GetSaveFileName_flags_witness:
  "length (snd (GetSaveFileName os_select 0 ''Pick'' example_filters ''C:'')) = 1 \<and>
   Flags (hd (snd (GetSaveFileName os_select 0 ''Pick'' example_filters ''C:''))) = 0x804 \<and>
   Flags (hd (snd (GetSaveFileName os_select 0 ''Pick'' example_filters ''C:''))) AND FileMustExist
     = 0"
proof -
  let ?S = "GetSaveFileName os_select 0 ''Pick'' example_filters ''C:''"
  have s: "snd ?S = [hd (snd ?S)]" by code_simp
  then have m: "hd (snd ?S) \<in> set (snd ?S)" by (metis list.set_intros(1))
  have v: "HideReadOnly OR PathMustExist = (0x804 :: uint32)" by (simp add: flag_defs)
  have "Flags (hd (snd ?S)) = HideReadOnly OR PathMustExist \<and>
        Flags (hd (snd ?S)) AND FileMustExist = 0"
    using GetSaveFileName_flags [of os_select 0 "''Pick''" example_filters "''C:''"] m by blast
  moreover have "length (snd ?S) = 1" using s by (metis length_Cons list.size(3) One_nat_def)
  ultimately show ?thesis using v by (simp add: FileMustExist_def)
qed

text \<open>
  C6. Every structure that \<open>GetOpenFileName\<close> passes to the operating system has the flags
  \<open>FileMustExist | HideReadOnly | PathMustExist\<close>, that is 0x1804, and of all flags of the
  package only those three are set.
\<close>

theorem GetOpenFileName_flags:
  "\<forall>ofn\<in>set (snd (GetOpenFileName os h t f d)).
     Flags ofn = FileMustExist OR HideReadOnly OR PathMustExist \<and>
     Flags ofn = 0x1804 \<and>
     (\<forall>fl\<in>set all_flags.
        (Flags ofn AND fl \<noteq> 0) = (fl \<in> {FileMustExist, HideReadOnly, PathMustExist}))"
proof
  fix ofn assume "ofn \<in> set (snd (GetOpenFileName os h t f d))"
  then obtain ofn0 where
    "NewTagOFNA (ptrSize os) h t f d (FileMustExist OR HideReadOnly OR PathMustExist) = Inr ofn0"
    "ofn = wired ofn0"
    using trace_open by blast
  then have fl: "Flags ofn = FileMustExist OR HideReadOnly OR PathMustExist"
    using NewTagOFNA_fields by (simp add: wired_fields)
  moreover have "FileMustExist OR HideReadOnly OR PathMustExist = (0x1804 :: uint32)"
    by (simp add: flag_defs)
  ultimately show "Flags ofn = FileMustExist OR HideReadOnly OR PathMustExist \<and>
     Flags ofn = 0x1804 \<and>
     (\<forall>fl\<in>set all_flags.
        (Flags ofn AND fl \<noteq> 0) = (fl \<in> {FileMustExist, HideReadOnly, PathMustExist}))"
    using open_flags_bits by simp
qed

theorem GetOpenFileName_flags_witness:
  "length (snd (GetOpenFileName os_select 0 ''Pick'' example_filters ''C:'')) = 1 \<and>
   Flags (hd (snd (GetOpenFileName os_select 0 ''Pick'' example_filters ''C:''))) = 0x1804"
proof -
  let ?O = "GetOpenFileName os_select 0 ''Pick'' example_filters ''C:''"
  have o: "snd ?O = [hd (snd ?O)]" by code_simp
  then have m: "hd (snd ?O) \<in> set (snd ?O)" by (metis list.set_intros(1))
  have "Flags (hd (snd ?O)) = 0x1804"
    using GetOpenFileName_flags [of os_select 0 "''Pick''" example_filters "''C:''"] m by blast
  moreover have "length (snd ?O) = 1" using o by (metis length_Cons list.size(3) One_nat_def)
  ultimately show ?thesis by simp
qed

subsection \<open>The empty filter list\<close>

text \<open>
  C7. Encoding the empty filter list does not crash and yields the buffer of exactly two
  terminator units; and on no filter list does \<open>ToRaw\<close> end in the panic of the index
  expression \<open>&ptr[0]\<close>, since the slice is never empty.
\<close>

theorem ToRaw_empty_and_no_panic:
  "ToRaw [] = Inr [0, 0] \<and> ToRaw ff \<noteq> Inl PanicIndexOutOfRange"
  by (simp add: ToRaw_cases utf16_Nil)

subsection \<open>The result of a completed dialog\<close>



subsection \<open>The parameter structure\<close>



subsection \<open>The separator character in a name or a pattern\<close>

text \<open>
  C10. A \<open>|\<close> in a name or a pattern is no reason for \<open>ToRaw\<close> to reject a filter list:
  whenever no pattern contains a space and no name or pattern contains a NUL byte (the two
  reasons for which it does reject), \<open>ToRaw\<close> returns a buffer, whatever the number of
  \<open>|\<close> characters. No unit of that buffer is \<open>|\<close>: each one from a name or a pattern has
  become a terminator unit, so that the buffer holds one terminator unit more for each of
  them than the \<open>2 * len(list) + 2\<close> of a list without them.
\<close>

theorem ToRaw_pipe_is_terminator:
  assumes "\<forall>f\<in>set ff. CHR '' '' \<notin> set (Pattern f)"
    and "\<forall>f\<in>set ff. CHR 0x00 \<notin> set (Name f) \<and> CHR 0x00 \<notin> set (Pattern f)"
  shows "\<exists>buf. ToRaw ff = Inr buf \<and> 0x7C \<notin> set buf \<and>
           count_list buf 0 = 2 * length ff + 2 + pipes ff"
proof -
  have n: "CHR 0x00 \<notin> set (built ff)" using assms(2) by (simp add: nul_in_built)
  then have "count_list (utf16 (built ff)) 0 = 0" by (simp add: count_utf16_nul)
  then have "count_list (ToRaw_subst (utf16 (built ff)) @ [0, 0]) 0 = 2 * length ff + 2 + pipes ff"
    by (simp add: count_ToRaw_subst count_utf16_pipe count_pipe_built)
  moreover have "ToRaw ff = Inr (ToRaw_subst (utf16 (built ff)) @ [0, 0])"
    using assms(1) n by (simp add: ToRaw_cases)
  moreover have "0x7C \<notin> set (ToRaw_subst (utf16 (built ff)) @ [0, 0])"
    using ToRaw_subst_no_pipe by simp
  ultimately show ?thesis by blast
qed

text \<open>
  The entry \<open>{"a|b", "*.c|*.h"}\<close> is encoded as \<open>a\0b\0*.c\0*.h\0\0\0\<close>: four fields
  instead of two.
\<close>

theorem ToRaw_pipe_is_terminator_witness:
  "ToRaw [\<lparr>Name = ''a|b'', Pattern = ''*.c|*.h''\<rparr>] =
     Inr (utf16 ''a'' @ [0] @ utf16 ''b'' @ [0] @ utf16 ''*.c'' @ [0] @ utf16 ''*.h'' @ [0, 0, 0]) \<and>
   (\<exists>buf. ToRaw [\<lparr>Name = ''a|b'', Pattern = ''*.c|*.h''\<rparr>] = Inr buf \<and> 0x7C \<notin> set buf \<and>
      count_list buf 0 = 6)"
proof -
  have h1: "\<forall>f\<in>set [\<lparr>Name = ''a|b'', Pattern = ''*.c|*.h''\<rparr>]. CHR '' '' \<notin> set (Pattern f)"
    by simp
  have h2: "\<forall>f\<in>set [\<lparr>Name = ''a|b'', Pattern = ''*.c|*.h''\<rparr>].
      CHR 0x00 \<notin> set (Name f) \<and> CHR 0x00 \<notin> set (Pattern f)"
    by simp
  have e: "ToRaw [\<lparr>Name = ''a|b'', Pattern = ''*.c|*.h''\<rparr>] =
     Inr (utf16 ''a'' @ [0] @ utf16 ''b'' @ [0] @ utf16 ''*.c'' @ [0] @ utf16 ''*.h'' @ [0, 0, 0])"
    by code_simp
  show ?thesis using ToRaw_pipe_is_terminator [OF h1 h2] e by simp
qed

end
